theory Spec2Isabelle
  imports Main "HOL-Library.Sublist"
begin

section \<open>The OpenADR VTN server (openleadr/server.py)\<close>

text \<open>
  The module defines one class, \<open>OpenADRServer\<close>, with a class-level table \<open>_MAP\<close>,
  a constructor and the method \<open>add_handler\<close>. Both methods work by side effect: they
  assign attributes of the service classes imported from \<open>openleadr.service\<close>, they
  assign attributes of the server instance, and they print. The model threads one
  process state through every operation and returns the raised exception, if any, as a
  value next to the state reached when it was raised.
\<close>

subsection \<open>Classes, values and the process state\<close>

text \<open>The six classes imported from \<open>openleadr.service\<close>.\<close>

datatype cls =
  EventService | ReportService | PollService | OptService | RegistrationService | VTNService

text \<open>The exceptions: the explicit \<open>NameError\<close> of \<open>add_handler\<close>, the
  \<open>OSError\<close> of \<open>open\<close> on a path that cannot be read, and those that Python
  raises by itself on a membership test of an object that has none, on a call that does
  not fit, on an assignment it guards and on a recursion without end.\<close>

datatype error = NameError string | OSError string | TypeError | AttributeError | RecursionError

text \<open>What \<open>cert\<close> and \<open>key\<close> hold when they reach \<open>partial\<close>: \<open>None\<close>, the
  path string the caller passed, or the bytes read from that path.\<close>

datatype pyarg = PyNone | PyStr string | PyBytes string

text \<open>A service instance \<open>EventService(vtn_id)\<close> and a route
  \<open>web.post(path, s.handler)\<close>, whose handler is the bound method of the service.\<close>

record service =
  svc_cls :: cls
  svc_vtn_id :: string

record route =
  rt_method :: string
  rt_path :: string
  rt_handler :: service

text \<open>
  The objects that the module stores in attributes. \<open>'h\<close> is the type of the
  callables the operator supplies as handlers, \<open>'l\<close> the type of the
  \<open>fingerprint_lookup\<close> callable.
\<close>

datatype ('h, 'l) pyval =
    Func 'h
  | StaticMethod 'h
  | BoundMethod nat string
  | CreateMessagePartial pyarg pyarg "string option"
  | ParseMessagePartial "'l option"
  | Application "route list"
  | ServiceDict "(string \<times> service) list"

text \<open>One argument of a \<open>print\<close> call: a string, or a handler object.\<close>

datatype 'h parg = S string | F 'h

text \<open>
  The process: the attribute dictionaries of the service classes, the
  \<open>OpenADRServer\<close> instances constructed so far (an instance is its attribute
  dictionary, and its identity is its index), and what has been printed, one entry for
  each \<open>print\<close> call.
\<close>

record ('h, 'l) proc =
  class_attrs :: "cls \<Rightarrow> string \<rightharpoonup> ('h, 'l) pyval"
  servers :: "(string \<rightharpoonup> ('h, 'l) pyval) list"
  stdout :: "'h parg list list"

subsection \<open>The table \<open>_MAP\<close>\<close>

definition MAP :: "(string \<times> cls) list" where
  "MAP = [(''on_created_event'', EventService),
          (''on_request_event'', EventService),
          (''on_register_report'', ReportService),
          (''on_create_report'', ReportService),
          (''on_created_report'', ReportService),
          (''on_request_report'', ReportService),
          (''on_update_report'', ReportService),
          (''on_poll'', PollService),
          (''on_query_registration'', RegistrationService),
          (''on_create_party_registration'', RegistrationService),
          (''on_cancel_party_registration'', RegistrationService)]"

text \<open>\<open>str(d.keys())\<close> for a dictionary with string keys:
  \<open>dict_keys(['k1', 'k2'])\<close>. The keys of \<open>_MAP\<close> hold no quote, backslash or
  control character, so the \<open>repr\<close> of a key is the key between single quotes.\<close>

definition py_repr :: "string \<Rightarrow> string" where
  "py_repr s = [CHR 0x27] @ s @ [CHR 0x27]"

fun join_comma :: "string list \<Rightarrow> string" where
  "join_comma [] = []"
| "join_comma [x] = x"
| "join_comma (x # y # zs) = x @ '', '' @ join_comma (y # zs)"

definition dict_keys_str :: "string list \<Rightarrow> string" where
  "dict_keys_str ks = ''dict_keys(['' @ join_comma (map py_repr ks) @ ''])''"

subsection \<open>\<open>add_handler\<close>\<close>

text \<open>
  \<^verbatim>\<open>
  def add_handler(self, name, func):
      print("Called add_handler", name, func)
      if name in self._MAP:
          setattr(self._MAP[name], name, staticmethod(func))
      else:
          raise NameError(f"Unknown handler {name}. Correct handler names are: {self._MAP.keys()}")
  \<close>
  The \<open>print\<close> runs before the test, so its line is in the output of a failing call too.

  \<open>self._MAP\<close> is an attribute read on the instance: Python takes the entry \<open>_MAP\<close>
  of the instance dictionary when there is one, and the table of the class otherwise.
  An index beyond the servers constructed names no object; it is given the empty
  dictionary, and the theorems take \<open>self\<close> among the servers.
\<close>

definition instance_dict :: "('h, 'l) proc \<Rightarrow> nat \<Rightarrow> string \<rightharpoonup> ('h, 'l) pyval" where
  "instance_dict st self = (if self < length (servers st) then servers st ! self else Map.empty)"

text \<open>
  When the instance dictionary holds \<open>_MAP\<close>, the body works on that object instead of
  the table. A function, a \<open>staticmethod\<close>, a bound method and a \<open>partial\<close> have
  no membership test, so \<open>name in self._MAP\<close> raises \<open>TypeError\<close>. A dictionary and
  an \<open>aiohttp\<close> application are mappings: the test, the indexing and the \<open>setattr\<close>
  on what the indexing returns are then those of objects that are not in this module,
  and what the body does with them is the parameter \<open>other_mapping\<close>.
\<close>

fun is_mapping :: "('h, 'l) pyval \<Rightarrow> bool" where
  "is_mapping (ServiceDict d) = True"
| "is_mapping (Application rs) = True"
| "is_mapping v = False"

type_synonym ('h, 'l) mapping_call =
  "('h, 'l) pyval \<Rightarrow> string \<Rightarrow> 'h \<Rightarrow> ('h, 'l) proc \<Rightarrow> (error + unit) \<times> ('h, 'l) proc"

definition unknown_handler_msg :: "string \<Rightarrow> string" where
  "unknown_handler_msg name =
     ''Unknown handler '' @ name @ ''. Correct handler names are: '' @ dict_keys_str (map fst MAP)"

definition add_handler ::
  "('h, 'l) mapping_call \<Rightarrow> ('h, 'l) proc \<Rightarrow> nat \<Rightarrow> string \<Rightarrow> 'h \<Rightarrow>
   (error + unit) \<times> ('h, 'l) proc" where
  "add_handler other_mapping st self name func =
     (let st1 = st\<lparr>stdout := stdout st @ [[S ''Called add_handler'', S name, F func]]\<rparr>
      in case instance_dict st self ''_MAP'' of
           None \<Rightarrow>
             (case map_of MAP name of
                Some c \<Rightarrow>
                  (Inr (),
                   st1\<lparr>class_attrs :=
                         (class_attrs st1)(c := (class_attrs st1 c)(name \<mapsto> StaticMethod func))\<rparr>)
              | None \<Rightarrow> (Inl (NameError (unknown_handler_msg name)), st1))
         | Some v \<Rightarrow>
             (if is_mapping v then other_mapping v name func st1 else (Inl TypeError, st1)))"

subsection \<open>Assigning an attribute of a server\<close>

text \<open>
  An assignment \<open>obj.name = v\<close> calls the \<open>__setattr__\<close> hook of the type of
  \<open>obj\<close>: Python looks the hook up in the dictionary of the class and then in that of
  \<open>object\<close>, never in the instance dictionary. The hook of \<open>object\<close> stores the
  value under the name in the instance dictionary, unless the name is one of the three
  attributes whose assignment Python guards on an instance of a class like this one.
\<close>

definition object_setattr ::
  "(string \<rightharpoonup> ('h, 'l) pyval) \<Rightarrow> string \<Rightarrow> ('h, 'l) pyval \<Rightarrow> (string \<rightharpoonup> ('h, 'l) pyval)" where
  "object_setattr d name v = d(name \<mapsto> v)"

text \<open>
  The guarded attributes. \<open>__class__\<close> takes a class only and \<open>__dict__\<close> a dictionary
  only, and a handler is a function: \<open>TypeError\<close>. \<open>__weakref__\<close> cannot be assigned
  at all: \<open>AttributeError\<close>.
\<close>

definition guarded_slot :: "string \<Rightarrow> error option" where
  "guarded_slot name =
     (if name = ''__class__'' \<or> name = ''__dict__'' then Some TypeError
      else if name = ''__weakref__'' then Some AttributeError
      else None)"

definition object_setattr_stmt ::
  "('h, 'l) proc \<Rightarrow> nat \<Rightarrow> string \<Rightarrow> ('h, 'l) pyval \<Rightarrow> (error + unit) \<times> ('h, 'l) proc" where
  "object_setattr_stmt st self name v =
     (case guarded_slot name of
        Some e \<Rightarrow> (Inl e, st)
      | None \<Rightarrow>
          (Inr (),
           st\<lparr>servers := (servers st)[self := object_setattr (servers st ! self) name v]\<rparr>))"

text \<open>
  The names that the body of \<open>class OpenADRServer\<close> binds, and what each is bound to:
  the table, and the three functions.
\<close>

datatype member = Table | InitFn | RunFn | AddHandlerFn

definition OpenADRServer_dict :: "(string \<times> member) list" where
  "OpenADRServer_dict =
     [(''_MAP'', Table), (''__init__'', InitFn), (''run'', RunFn), (''add_handler'', AddHandlerFn)]"

text \<open>
  The statement \<open>server.name = func\<close> on an instance of a class with the dictionary
  \<open>class_dict\<close>. If the class binds \<open>__setattr__\<close>, the statement is a call of that
  member with \<open>(server, name, func)\<close>: a call of \<open>add_handler\<close>, if it is bound to
  that function; \<open>TypeError\<close> for \<open>run\<close>, which takes one argument, and for the
  table, which cannot be called; and for \<open>__init__\<close>, whose first statement is itself
  an assignment on \<open>self\<close>, a recursion without end, which Python stops with
  \<open>RecursionError\<close>. If the class does not bind it, the hook is that of \<open>object\<close>.
\<close>

definition assign_attr ::
  "(string \<times> member) list \<Rightarrow> ('h, 'l) mapping_call \<Rightarrow> ('h, 'l) proc \<Rightarrow> nat \<Rightarrow> string \<Rightarrow> 'h \<Rightarrow>
   (error + unit) \<times> ('h, 'l) proc" where
  "assign_attr class_dict other_mapping st self name func =
     (case map_of class_dict ''__setattr__'' of
        None \<Rightarrow> object_setattr_stmt st self name (Func func)
      | Some AddHandlerFn \<Rightarrow> add_handler other_mapping st self name func
      | Some InitFn \<Rightarrow> (Inl RecursionError, st)
      | Some RunFn \<Rightarrow> (Inl TypeError, st)
      | Some Table \<Rightarrow> (Inl TypeError, st))"

text \<open>The statement on an \<open>OpenADRServer\<close>.\<close>

definition setattr_stmt ::
  "('h, 'l) mapping_call \<Rightarrow> ('h, 'l) proc \<Rightarrow> nat \<Rightarrow> string \<Rightarrow> 'h \<Rightarrow>
   (error + unit) \<times> ('h, 'l) proc" where
  "setattr_stmt other_mapping st self name func =
     assign_attr OpenADRServer_dict other_mapping st self name func"

subsection \<open>The constructor\<close>

text \<open>Truth value of an optional path in \<open>if cert and key\<close>: \<open>None\<close> and the empty
  string are false.\<close>

definition truthy :: "string option \<Rightarrow> bool" where
  "truthy v = (case v of None \<Rightarrow> False | Some s \<Rightarrow> s \<noteq> [])"

definition as_arg :: "string option \<Rightarrow> pyarg" where
  "as_arg v = (case v of None \<Rightarrow> PyNone | Some s \<Rightarrow> PyStr s)"

text \<open>The five lines printed when signing is configured; the argument is the value of
  \<open>certificate_fingerprint(cert)\<close>.\<close>

definition fingerprint_banner :: "string \<Rightarrow> 'h parg list list" where
  "fingerprint_banner fp =
     [[S (replicate 80 CHR ''*'')],
      [S ''Your VTN Certificate Fingerprint is'', S fp],
      [S ''Please deliver this fingerprint to the VTN you are connecting to.''],
      [S ''You do not need to keep this a secret.''],
      [S (replicate 80 CHR ''*'')]]"

text \<open>
  \<^verbatim>\<open>
  if cert and key:
      with open(cert, "rb") as file:
          cert = file.read()
      with open(key, "rb") as file:
          key = file.read()
      print("*" * 80)
      print("Your VTN Certificate Fingerprint is", certificate_fingerprint(cert))
      ...
  \<close>
  The block rebinds \<open>cert\<close> and \<open>key\<close> and prints. The file system is a map from paths
  to contents, and \<open>open\<close> on a path outside it raises. \<open>certificate_fingerprint\<close>
  is imported from \<open>openleadr.utils\<close> and is a parameter here. The result is the
  values of \<open>cert\<close> and \<open>key\<close> after the block, and the lines printed.
\<close>

definition configure_signing ::
  "(string \<Rightarrow> string) \<Rightarrow> (string \<rightharpoonup> string) \<Rightarrow> string option \<Rightarrow> string option \<Rightarrow>
   error + (pyarg \<times> pyarg \<times> 'h parg list list)" where
  "configure_signing certificate_fingerprint fs cert key =
     (if truthy cert \<and> truthy key then
        (case fs (the cert) of
           None \<Rightarrow> Inl (OSError (the cert))
         | Some c \<Rightarrow>
             (case fs (the key) of
                None \<Rightarrow> Inl (OSError (the key))
              | Some k \<Rightarrow>
                  Inr (PyBytes c, PyBytes k, fingerprint_banner (certificate_fingerprint c))))
      else Inr (as_arg cert, as_arg key, []))"

text \<open>\<open>self.services\<close>: a dictionary, in insertion order.\<close>

definition make_services :: "string \<Rightarrow> (string \<times> service) list" where
  "make_services vtn_id =
     [(''event_service'', \<lparr>svc_cls = EventService, svc_vtn_id = vtn_id\<rparr>),
      (''report_service'', \<lparr>svc_cls = ReportService, svc_vtn_id = vtn_id\<rparr>),
      (''poll_service'', \<lparr>svc_cls = PollService, svc_vtn_id = vtn_id\<rparr>),
      (''opt_service'', \<lparr>svc_cls = OptService, svc_vtn_id = vtn_id\<rparr>),
      (''registration_service'', \<lparr>svc_cls = RegistrationService, svc_vtn_id = vtn_id\<rparr>)]"

text \<open>
  \<^verbatim>\<open>[web.post(f"/OpenADR2/Simple/2.0b/{s.__service_name__}", s.handler)
    for s in self.services.values()]\<close>
  The attribute \<open>__service_name__\<close> is set in \<open>openleadr.service\<close>; it is the
  parameter \<open>service_name\<close>, a name for each service class.
\<close>

definition make_routes :: "(cls \<Rightarrow> string) \<Rightarrow> (string \<times> service) list \<Rightarrow> route list" where
  "make_routes service_name svcs =
     map (\<lambda>s. \<lparr>rt_method = ''POST'',
               rt_path = ''/OpenADR2/Simple/2.0b/'' @ service_name (svc_cls s),
               rt_handler = s\<rparr>)
         (map snd svcs)"

text \<open>
  The constructor. The new instance gets the next index. When \<open>open\<close> raises, the
  constructor is left before anything was printed or assigned on a class, and the
  instance under construction is dropped. Otherwise the two partials are assigned on the
  class \<open>VTNService\<close>, and the three assignments \<open>self.app = ...\<close>,
  \<open>self.services = ...\<close> and \<open>self.__setattr__ = self.add_handler\<close> have stored
  their values in the instance; the last value is the bound method.
\<close>

definition init ::
  "(cls \<Rightarrow> string) \<Rightarrow> (string \<Rightarrow> string) \<Rightarrow> (string \<rightharpoonup> string) \<Rightarrow> ('h, 'l) proc \<Rightarrow>
   string \<Rightarrow> string option \<Rightarrow> string option \<Rightarrow> string option \<Rightarrow> 'l option \<Rightarrow>
   (error + nat) \<times> ('h, 'l) proc" where
  "init service_name certificate_fingerprint fs st vtn_id cert key passphrase fingerprint_lookup =
     (let self = length (servers st);
          services = make_services vtn_id;
          app = Application (make_routes service_name services);
          d1 = object_setattr Map.empty ''app'' app;
          d2 = object_setattr d1 ''services'' (ServiceDict services)
      in case configure_signing certificate_fingerprint fs cert key of
           Inl e \<Rightarrow> (Inl e, st)
         | Inr (cert', key', out) \<Rightarrow>
             (Inr self,
              st\<lparr>class_attrs :=
                   (class_attrs st)(VTNService := (class_attrs st VTNService)
                      (''_create_message'' \<mapsto> CreateMessagePartial cert' key' passphrase,
                       ''_parse_message'' \<mapsto> ParseMessagePartial fingerprint_lookup)),
                 servers := servers st @
                   [object_setattr d2 ''__setattr__'' (BoundMethod self ''add_handler'')],
                 stdout := stdout st @ out\<rparr>))"

subsection \<open>Attribute access\<close>

text \<open>
  Modelled from the spec: the class statements of \<open>openleadr.service\<close> are not in
  \<open>server.py\<close>. The five service classes have the common base \<open>VTNService\<close>.
\<close>

definition bases :: "cls \<Rightarrow> cls list" where
  "bases c = (if c = VTNService then [] else [VTNService])"

text \<open>Looking a name up on a class: the class's own dictionary, then its bases.\<close>

definition class_getattr :: "('h, 'l) proc \<Rightarrow> cls \<Rightarrow> string \<Rightarrow> ('h, 'l) pyval option" where
  "class_getattr st c name =
     (case class_attrs st c name of
        Some v \<Rightarrow> Some v
      | None \<Rightarrow> (case bases c of [] \<Rightarrow> None | b # _ \<Rightarrow> class_attrs st b name))"

text \<open>Reading an attribute found on the class: a \<open>staticmethod\<close> object gives the
  function it wraps.\<close>

fun descr_get :: "('h, 'l) pyval \<Rightarrow> ('h, 'l) pyval" where
  "descr_get (StaticMethod f) = Func f"
| "descr_get v = v"

text \<open>
  Modelled from the spec: the service classes are not in \<open>server.py\<close>. A service area
  owns no state beyond the bindings it delegates to, so an attribute read on a service
  instance, other than \<open>vtn_id\<close>, is resolved on its class.
\<close>

definition service_getattr :: "('h, 'l) proc \<Rightarrow> service \<Rightarrow> string \<Rightarrow> ('h, 'l) pyval option" where
  "service_getattr st svc name = map_option descr_get (class_getattr st (svc_cls svc) name)"

text \<open>
  Modelled from the spec: the request handling of the service classes is not in
  \<open>server.py\<close>. On a message for the extension point \<open>name\<close> the service resolves
  the current binding of \<open>name\<close> and invokes it. The result is the operator's callable
  that is invoked, if the binding is one.
\<close>

definition dispatch :: "('h, 'l) proc \<Rightarrow> service \<Rightarrow> string \<Rightarrow> 'h option" where
  "dispatch st svc name =
     (case service_getattr st svc name of Some (Func f) \<Rightarrow> Some f | _ \<Rightarrow> None)"

text \<open>The services and the routes a server holds.\<close>

definition server_services :: "('h, 'l) proc \<Rightarrow> nat \<Rightarrow> service list" where
  "server_services st self =
     (if self < length (servers st) then
        (case (servers st ! self) ''services'' of
           Some (ServiceDict d) \<Rightarrow> map snd d
         | _ \<Rightarrow> [])
      else [])"

definition server_routes :: "('h, 'l) proc \<Rightarrow> nat \<Rightarrow> route list" where
  "server_routes st self =
     (if self < length (servers st) then
        (case (servers st ! self) ''app'' of
           Some (Application rs) \<Rightarrow> rs
         | _ \<Rightarrow> [])
      else [])"

subsection \<open>Conditions on the surroundings\<close>

text \<open>Every file the constructor opens is there.\<close>

definition files_readable :: "(string \<rightharpoonup> string) \<Rightarrow> string option \<Rightarrow> string option \<Rightarrow> bool" where
  "files_readable fs cert key =
     (if truthy cert \<and> truthy key then fs (the cert) \<noteq> None \<and> fs (the key) \<noteq> None else True)"

text \<open>No service class has a signer or verifier in its own dictionary.\<close>

definition no_own_codec :: "('h, 'l) proc \<Rightarrow> bool" where
  "no_own_codec st =
     list_all (\<lambda>c. class_attrs st c ''_create_message'' = None \<and>
                   class_attrs st c ''_parse_message'' = None)
       [EventService, ReportService, PollService, OptService, RegistrationService]"

subsection \<open>Concrete inputs\<close>

text \<open>A process in which no class attribute is set and no server exists, a name for
  each service, a fingerprint function and a file system with one certificate and one
  key.\<close>

definition st0 :: "(nat, nat) proc" where
  "st0 = \<lparr>class_attrs = (\<lambda>_. Map.empty), servers = [], stdout = []\<rparr>"

fun sn0 :: "cls \<Rightarrow> string" where
  "sn0 EventService = ''EiEvent''"
| "sn0 ReportService = ''EiReport''"
| "sn0 PollService = ''OadrPoll''"
| "sn0 OptService = ''EiOpt''"
| "sn0 RegistrationService = ''EiRegisterParty''"
| "sn0 VTNService = ''VTN''"

definition cf0 :: "string \<Rightarrow> string" where
  "cf0 c = take 4 c"

definition fs0 :: "string \<rightharpoonup> string" where
  "fs0 = [''cert.pem'' \<mapsto> ''CERTDATA'', ''key.pem'' \<mapsto> ''KEYDATA'']"

text \<open>A value for the parameter of \<open>add_handler\<close>, a process holding one server
  constructed without credentials, a process holding two, and a poll service.\<close>

definition mc0 :: "(nat, nat) mapping_call" where
  "mc0 v name func st = (Inl TypeError, st)"

definition st_one :: "(nat, nat) proc" where
  "st_one = snd (init sn0 cf0 fs0 st0 ''vtn1'' None None None None)"

definition st_two :: "(nat, nat) proc" where
  "st_two = snd (init sn0 cf0 fs0 (snd (init sn0 cf0 fs0 st0 ''vtn1'' None None None None))
                  ''vtn2'' None None None None)"

definition poll_svc :: service where
  "poll_svc = \<lparr>svc_cls = PollService, svc_vtn_id = ''vtn1''\<rparr>"

text \<open>The attribute dictionary of a server when its constructor returns.\<close>

definition new_instance :: "(cls \<Rightarrow> string) \<Rightarrow> string \<Rightarrow> nat \<Rightarrow> string \<rightharpoonup> ('h, 'l) pyval" where
  "new_instance sn vtn_id self =
     [''app'' \<mapsto> Application (make_routes sn (make_services vtn_id)),
      ''services'' \<mapsto> ServiceDict (make_services vtn_id),
      ''__setattr__'' \<mapsto> BoundMethod self ''add_handler'']"

text \<open>An event service, a process holding one server constructed with a certificate and
  a key, and that process after a second server was constructed without credentials.\<close>

definition event_svc :: service where
  "event_svc = \<lparr>svc_cls = EventService, svc_vtn_id = ''vtn1''\<rparr>"

definition st_signed :: "(nat, nat) proc" where
  "st_signed = snd (init sn0 cf0 fs0 st0 ''vtn1'' (Some ''cert.pem'') (Some ''key.pem'')
                      (Some ''pw'') (Some 1))"

definition st_then_unsigned :: "(nat, nat) proc" where
  "st_then_unsigned = snd (init sn0 cf0 fs0 st_signed ''vtn2'' None None None None)"

subsection \<open>Helper lemmas\<close>

lemma object_setattr_upd [simp]: "object_setattr d name v = d(name \<mapsto> v)"
  by (simp add: object_setattr_def)

lemma sublist_join_comma:
  "k \<in> set ks \<Longrightarrow> sublist k (join_comma ks)"
proof (induction ks rule: join_comma.induct)
  case 1
  then show ?case by simp
next
  case (2 x)
  then show ?case by simp
next
  case (3 x y zs)
  show ?case
  proof (cases "k = x")
    case True
    then show ?thesis by simp
  next
    case False
    with 3 have "sublist k (join_comma (y # zs))" by simp
    then have "sublist k ((x @ '', '') @ join_comma (y # zs))"
      by (metis sublist_append_leftI sublist_order.order_trans)
    then show ?thesis by simp
  qed
qed

lemma sublist_py_repr: "sublist k (py_repr k)"
  unfolding py_repr_def by (rule sublist_appendI)

lemma sublist_dict_keys_str:
  assumes "k \<in> set ks"
  shows "sublist k (dict_keys_str ks)"
proof -
  from assms have "py_repr k \<in> set (map py_repr ks)" by simp
  then have "sublist (py_repr k) (join_comma (map py_repr ks))"
    by (rule sublist_join_comma)
  with sublist_py_repr have "sublist k (join_comma (map py_repr ks))"
    by (rule sublist_order.order_trans)
  moreover have "sublist (join_comma (map py_repr ks)) (dict_keys_str ks)"
    unfolding dict_keys_str_def by (rule sublist_appendI)
  ultimately show ?thesis by (rule sublist_order.order_trans)
qed

lemma map_of_MAP_None: "map_of MAP name = None \<longleftrightarrow> name \<notin> set (map fst MAP)"
  by (simp add: map_of_eq_None_iff)

lemma sublist_name_msg: "sublist name (unknown_handler_msg name)"
  unfolding unknown_handler_msg_def by (rule sublist_appendI)

lemma sublist_key_msg:
  assumes "k \<in> set (map fst MAP)"
  shows "sublist k (unknown_handler_msg name)"
proof -
  have "sublist k (dict_keys_str (map fst MAP))"
    using assms by (rule sublist_dict_keys_str)
  moreover have "sublist (dict_keys_str (map fst MAP)) (unknown_handler_msg name)"
    unfolding unknown_handler_msg_def
    by (metis append.assoc sublist_append_leftI)
  ultimately show ?thesis by (rule sublist_order.order_trans)
qed

lemma MAP_owner_not_base: "map_of MAP name = Some c \<Longrightarrow> c \<noteq> VTNService"
  by (auto simp: MAP_def split: if_splits)

lemma dispatch_own_static:
  "class_attrs st (svc_cls svc) name = Some (StaticMethod f) \<Longrightarrow> dispatch st svc name = Some f"
  by (simp add: dispatch_def service_getattr_def class_getattr_def)

lemma service_getattr_own_static:
  "class_attrs st (svc_cls svc) name = Some (StaticMethod f) \<Longrightarrow>
   service_getattr st svc name = Some (Func f)"
  by (simp add: service_getattr_def class_getattr_def)

lemma class_attrs_init_other:
  "c \<noteq> VTNService \<Longrightarrow>
   class_attrs (snd (init sn cf fs st vtn_id cert key passphrase fl)) c = class_attrs st c"
  by (simp add: init_def Let_def split: sum.splits prod.splits)

lemma configure_signing_skipped:
  "\<not> (truthy cert \<and> truthy key) \<Longrightarrow>
   configure_signing cf fs cert key = Inr (as_arg cert, as_arg key, [])"
  by (auto simp: configure_signing_def)

lemma configure_signing_read:
  "truthy cert \<Longrightarrow> truthy key \<Longrightarrow> fs (the cert) = Some c \<Longrightarrow> fs (the key) = Some k \<Longrightarrow>
   configure_signing cf fs cert key = Inr (PyBytes c, PyBytes k, fingerprint_banner (cf c))"
  by (simp add: configure_signing_def)

lemma configure_signing_readable:
  assumes "files_readable fs cert key"
  shows "\<exists>c' k' out. configure_signing cf fs cert key = Inr (c', k', out)"
proof (cases "truthy cert \<and> truthy key")
  case True
  with assms obtain c k where "fs (the cert) = Some c" "fs (the key) = Some k"
    by (auto simp: files_readable_def)
  with True show ?thesis by (simp add: configure_signing_read)
next
  case False
  then show ?thesis by (simp add: configure_signing_skipped)
qed

lemma init_ok:
  assumes "configure_signing cf fs cert key = Inr (c', k', out)"
  shows "init sn cf fs st vtn_id cert key passphrase fl =
     (Inr (length (servers st)),
      st\<lparr>class_attrs :=
           (class_attrs st)(VTNService := (class_attrs st VTNService)
              (''_create_message'' \<mapsto> CreateMessagePartial c' k' passphrase,
               ''_parse_message'' \<mapsto> ParseMessagePartial fl)),
         servers := servers st @
           [[''app'' \<mapsto> Application (make_routes sn (make_services vtn_id)),
             ''services'' \<mapsto> ServiceDict (make_services vtn_id),
             ''__setattr__'' \<mapsto> BoundMethod (length (servers st)) ''add_handler'']],
         stdout := stdout st @ out\<rparr>)"
  using assms by (simp add: init_def Let_def)

lemma init_failed:
  fixes st :: "('h, 'l) proc"
  assumes "(configure_signing cf fs cert key :: error + pyarg \<times> pyarg \<times> 'h parg list list) = Inl e"
  shows "init sn cf fs st vtn_id cert key passphrase fl = (Inl e, st)"
  using assms by (simp add: init_def Let_def)

lemma init_InrD:
  fixes st :: "('h, 'l) proc"
  assumes "init sn cf fs st vtn_id cert key passphrase fl = (Inr self, st1)"
  shows "\<exists>c' k' out.
           (configure_signing cf fs cert key :: error + pyarg \<times> pyarg \<times> 'h parg list list)
             = Inr (c', k', out)"
proof (cases "configure_signing cf fs cert key :: error + pyarg \<times> pyarg \<times> 'h parg list list")
  case (Inl e)
  then have "init sn cf fs st vtn_id cert key passphrase fl = (Inl e, st)" by (rule init_failed)
  with assms show ?thesis by simp
next
  case (Inr r)
  then show ?thesis by (cases r) auto
qed

lemma truthy_simps [simp]:
  "truthy None = False" "truthy (Some s) = (s \<noteq> [])"
  by (simp_all add: truthy_def)

lemma as_arg_simps [simp]:
  "as_arg None = PyNone" "as_arg (Some s) = PyStr s"
  by (simp_all add: as_arg_def)

lemma no_own_codec_D:
  "no_own_codec st \<Longrightarrow> c \<noteq> VTNService \<Longrightarrow>
   class_attrs st c ''_create_message'' = None \<and> class_attrs st c ''_parse_message'' = None"
  by (cases c) (simp_all add: no_own_codec_def)

lemma class_getattr_base:
  assumes "class_attrs st VTNService name = Some v"
    and "c \<noteq> VTNService \<longrightarrow> class_attrs st c name = None"
  shows "class_getattr st c name = Some v"
  using assms by (cases "c = VTNService") (simp_all add: class_getattr_def bases_def)

lemma server_services_new:
  "server_services
     (st\<lparr>class_attrs := ca, servers := servers st @ [new_instance sn vtn_id self], stdout := out\<rparr>)
     (length (servers st)) = map snd (make_services vtn_id)"
  by (simp add: server_services_def new_instance_def)

lemma server_routes_new:
  "server_routes
     (st\<lparr>class_attrs := ca, servers := servers st @ [new_instance sn vtn_id self], stdout := out\<rparr>)
     (length (servers st)) = make_routes sn (make_services vtn_id)"
  by (simp add: server_routes_def new_instance_def)

lemma init_ok':
  assumes "configure_signing cf fs cert key = Inr (c', k', out)"
  shows "init sn cf fs st vtn_id cert key passphrase fl =
     (Inr (length (servers st)),
      st\<lparr>class_attrs :=
           (class_attrs st)(VTNService := (class_attrs st VTNService)
              (''_create_message'' \<mapsto> CreateMessagePartial c' k' passphrase,
               ''_parse_message'' \<mapsto> ParseMessagePartial fl)),
         servers := servers st @ [new_instance sn vtn_id (length (servers st))],
         stdout := stdout st @ out\<rparr>)"
  using assms by (simp add: init_ok new_instance_def)

lemma codec_after_init:
  fixes st :: "('h, 'l) proc" and out :: "'h parg list list"
  assumes noc: "no_own_codec st"
    and cs: "configure_signing cf fs cert key = Inr (c', k', out)"
    and st': "st' = snd (init sn cf fs st vtn_id cert key passphrase fl)"
  shows "service_getattr st' svc ''_create_message'' = Some (CreateMessagePartial c' k' passphrase)"
    and "service_getattr st' svc ''_parse_message'' = Some (ParseMessagePartial fl)"
    and "no_own_codec st'"
proof -
  have st'_eq: "st' = st\<lparr>class_attrs :=
           (class_attrs st)(VTNService := (class_attrs st VTNService)
              (''_create_message'' \<mapsto> CreateMessagePartial c' k' passphrase,
               ''_parse_message'' \<mapsto> ParseMessagePartial fl)),
         servers := servers st @ [new_instance sn vtn_id (length (servers st))],
         stdout := stdout st @ out\<rparr>"
    unfolding st' by (simp add: init_ok' [OF cs])
  have own: "svc_cls svc \<noteq> VTNService \<longrightarrow>
      class_attrs st' (svc_cls svc) ''_create_message'' = None \<and>
      class_attrs st' (svc_cls svc) ''_parse_message'' = None"
    using no_own_codec_D [OF noc, of "svc_cls svc"] by (simp add: st'_eq)
  have base: "class_attrs st' VTNService ''_create_message''
                = Some (CreateMessagePartial c' k' passphrase)"
       "class_attrs st' VTNService ''_parse_message'' = Some (ParseMessagePartial fl)"
    by (simp_all add: st'_eq)
  from base(1) own
  have "class_getattr st' (svc_cls svc) ''_create_message''
          = Some (CreateMessagePartial c' k' passphrase)"
    by (intro class_getattr_base) simp_all
  then show "service_getattr st' svc ''_create_message''
          = Some (CreateMessagePartial c' k' passphrase)"
    by (simp add: service_getattr_def)
  from base(2) own
  have "class_getattr st' (svc_cls svc) ''_parse_message'' = Some (ParseMessagePartial fl)"
    by (intro class_getattr_base) simp_all
  then show "service_getattr st' svc ''_parse_message'' = Some (ParseMessagePartial fl)"
    by (simp add: service_getattr_def)
  from noc show "no_own_codec st'"
    by (simp add: no_own_codec_def st'_eq)
qed

lemma servers_st0: "servers st0 = []"
  by (simp add: st0_def)

lemma init_unreadable:
  "truthy cert \<Longrightarrow> truthy key \<Longrightarrow> fs (the cert) = None \<or> fs (the key) = None \<Longrightarrow>
   \<exists>p. init sn cf fs st vtn_id cert key passphrase fl = (Inl (OSError p), st)"
  by (auto simp: init_def configure_signing_def Let_def split: option.splits)

lemma instance_dict_own:
  "self < length (servers st) \<Longrightarrow> instance_dict st self = servers st ! self"
  by (simp add: instance_dict_def)

lemma add_handler_known:
  assumes "self < length (servers st)" and "(servers st ! self) ''_MAP'' = None"
    and "map_of MAP name = Some c"
  shows "add_handler om st self name func =
     (Inr (),
      st\<lparr>stdout := stdout st @ [[S ''Called add_handler'', S name, F func]],
         class_attrs := (class_attrs st)(c := (class_attrs st c)(name \<mapsto> StaticMethod func))\<rparr>)"
  using assms by (simp add: add_handler_def Let_def instance_dict_own)

lemma add_handler_unknown:
  assumes "self < length (servers st)" and "(servers st ! self) ''_MAP'' = None"
    and "map_of MAP name = None"
  shows "add_handler om st self name func =
     (Inl (NameError (unknown_handler_msg name)),
      st\<lparr>stdout := stdout st @ [[S ''Called add_handler'', S name, F func]]\<rparr>)"
  using assms by (simp add: add_handler_def Let_def instance_dict_own)

lemma add_handler_not_mapping:
  assumes "self < length (servers st)" and "(servers st ! self) ''_MAP'' = Some v"
    and "\<not> is_mapping v"
  shows "add_handler om st self name func =
     (Inl TypeError, st\<lparr>stdout := stdout st @ [[S ''Called add_handler'', S name, F func]]\<rparr>)"
  using assms by (simp add: add_handler_def Let_def instance_dict_own)

lemma class_attrs_add_handler_other:
  assumes "self < length (servers st)" and "(servers st ! self) ''_MAP'' = None"
    and "name' \<noteq> name"
  shows "class_attrs (snd (add_handler om st self name' g)) c name = class_attrs st c name"
  using assms
  by (cases "map_of MAP name'") (simp_all add: add_handler_known add_handler_unknown)

lemma class_attrs_add_handler_same:
  assumes "self < length (servers st)" and "(servers st ! self) ''_MAP'' = None"
    and "map_of MAP name = Some c"
  shows "class_attrs (snd (add_handler om st self name func)) c name = Some (StaticMethod func)"
  using assms by (simp add: add_handler_known)

lemma servers_add_handler:
  assumes "self < length (servers st)" and "(servers st ! self) ''_MAP'' = None"
  shows "servers (snd (add_handler om st self name func)) = servers st"
  using assms
  by (cases "map_of MAP name") (simp_all add: add_handler_known add_handler_unknown)

lemma server_services_add_handler:
  assumes "self < length (servers st)" and "(servers st ! self) ''_MAP'' = None"
  shows "server_services (snd (add_handler om st self name func)) s = server_services st s"
  using assms by (simp add: server_services_def servers_add_handler)

lemma stdout_add_handler:
  assumes "self < length (servers st)" and "(servers st ! self) ''_MAP'' = None"
  shows "stdout (snd (add_handler om st self name func))
     = stdout st @ [[S ''Called add_handler'', S name, F func]]"
  using assms
  by (cases "map_of MAP name") (simp_all add: add_handler_known add_handler_unknown)

lemma new_instance_no_MAP: "new_instance sn vtn_id self ''_MAP'' = None"
  by (simp add: new_instance_def)

lemma guarded_slot_None:
  "name \<noteq> ''__class__'' \<Longrightarrow> name \<noteq> ''__dict__'' \<Longrightarrow> name \<noteq> ''__weakref__'' \<Longrightarrow>
   guarded_slot name = None"
  by (simp add: guarded_slot_def)

lemma no_class_hook: "map_of OpenADRServer_dict ''__setattr__'' = None"
  by (simp add: OpenADRServer_dict_def)

lemma setattr_stmt_ordinary:
  assumes "guarded_slot name = None"
  shows "setattr_stmt om st self name func =
     (Inr (), st\<lparr>servers := (servers st)[self := (servers st ! self)(name \<mapsto> Func func)]\<rparr>)"
  using assms
  by (simp add: setattr_stmt_def assign_attr_def no_class_hook object_setattr_stmt_def)

lemma assign_attr_class_hook:
  "assign_attr ((''__setattr__'', AddHandlerFn) # cd) om st self name func
     = add_handler om st self name func"
  by (simp add: assign_attr_def)

lemma st_one_eq:
  "st_one = \<lparr>class_attrs = (\<lambda>_. Map.empty)(VTNService :=
                 [''_create_message'' \<mapsto> CreateMessagePartial PyNone PyNone None,
                  ''_parse_message'' \<mapsto> ParseMessagePartial None]),
             servers = [new_instance sn0 ''vtn1'' 0], stdout = []\<rparr>"
  by (simp add: st_one_def init_def Let_def configure_signing_def st0_def new_instance_def)

lemma st_two_eq:
  "st_two = \<lparr>class_attrs = (\<lambda>_. Map.empty)(VTNService :=
                 [''_create_message'' \<mapsto> CreateMessagePartial PyNone PyNone None,
                  ''_parse_message'' \<mapsto> ParseMessagePartial None]),
             servers = [new_instance sn0 ''vtn1'' 0, new_instance sn0 ''vtn2'' 1], stdout = []\<rparr>"
  by (simp add: st_two_def init_def Let_def configure_signing_def st0_def new_instance_def)

section \<open>The claims\<close>

subsection \<open>C1: an unknown name\<close>

text \<open>
  C1. Take a server that exists and whose \<open>_MAP\<close> is the table of the class (its
  instance dictionary has no entry \<open>_MAP\<close>). For every name that is not a key of
  \<open>_MAP\<close> and every handler, \<open>add_handler(name, handler)\<close> raises the \<open>NameError\<close>
  whose message is \<open>Unknown handler <name>. Correct handler names are:
  dict_keys([...])\<close>. The message contains the offending name and every key of
  \<open>_MAP\<close>. The call changes no attribute of a service class and no attribute of a
  server; it only prints its first line.
\<close>

theorem add_handler_unknown_name_fails:
  assumes "name \<notin> set (map fst MAP)"
    and "self < length (servers st)"
    and "(servers st ! self) ''_MAP'' = None"
  shows "fst (add_handler om st self name func) = Inl (NameError (unknown_handler_msg name))
       \<and> sublist name (unknown_handler_msg name)
       \<and> (\<forall>k \<in> set (map fst MAP). sublist k (unknown_handler_msg name))
       \<and> class_attrs (snd (add_handler om st self name func)) = class_attrs st
       \<and> servers (snd (add_handler om st self name func)) = servers st"
proof -
  from assms(1) have "map_of MAP name = None" by (simp add: map_of_MAP_None)
  with assms(2,3) have "add_handler om st self name func =
     (Inl (NameError (unknown_handler_msg name)),
      st\<lparr>stdout := stdout st @ [[S ''Called add_handler'', S name, F func]]\<rparr>)"
    by (rule add_handler_unknown)
  then show ?thesis
    by (simp add: sublist_name_msg sublist_key_msg del: set_map)
qed

theorem add_handler_unknown_name_fails_witness:
  "fst (add_handler mc0 st_one 0 ''on_event'' 1) = Inl (NameError (unknown_handler_msg ''on_event''))
   \<and> sublist ''on_event'' (unknown_handler_msg ''on_event'')
   \<and> sublist ''on_poll'' (unknown_handler_msg ''on_event'')
   \<and> class_attrs (snd (add_handler mc0 st_one 0 ''on_event'' 1)) = class_attrs st_one
   \<and> servers (snd (add_handler mc0 st_one 0 ''on_event'' 1)) = servers st_one"
proof -
  have s: "servers st_one = [new_instance sn0 ''vtn1'' 0]" by (simp add: st_one_eq)
  show ?thesis
    using add_handler_unknown_name_fails [of "''on_event''" 0 st_one mc0 1]
    by (simp add: MAP_def s new_instance_no_MAP)
qed

subsection \<open>C2: binding a catalogue name\<close>

text \<open>
  C2. Take a server that exists and whose \<open>_MAP\<close> is the table of the class. For every
  key \<open>name\<close> of \<open>_MAP\<close>, with owning class \<open>c = _MAP[name]\<close>, and every handler
  \<open>func\<close>: \<open>add_handler(name, func)\<close> succeeds; afterwards the attribute \<open>name\<close>
  read on \<open>c\<close> is \<open>func\<close>; a dispatch for \<open>name\<close> on any service of class \<open>c\<close>
  invokes \<open>func\<close>, whatever was bound before; and it still does after \<open>add_handler\<close>
  calls for other names, on any such server, and after another server is constructed.
\<close>

theorem add_handler_rebinds_dispatch:
  assumes "map_of MAP name = Some c"
    and "self < length (servers st)"
    and "(servers st ! self) ''_MAP'' = None"
    and "st' = snd (add_handler om st self name func)"
  shows "fst (add_handler om st self name func) = Inr ()
       \<and> map_option descr_get (class_getattr st' c name) = Some (Func func)
       \<and> (\<forall>svc. svc_cls svc = c \<longrightarrow> dispatch st' svc name = Some func)
       \<and> (\<forall>svc self' name' g.
             svc_cls svc = c \<and> name' \<noteq> name \<and>
             self' < length (servers st') \<and> (servers st' ! self') ''_MAP'' = None \<longrightarrow>
             dispatch (snd (add_handler om st' self' name' g)) svc name = Some func)
       \<and> (\<forall>svc sn cf fs vtn_id cert key passphrase fl. svc_cls svc = c \<longrightarrow>
             dispatch (snd (init sn cf fs st' vtn_id cert key passphrase fl)) svc name
               = Some func)"
proof -
  have own: "class_attrs st' c name = Some (StaticMethod func)"
    unfolding assms(4) using assms(2,3,1) by (rule class_attrs_add_handler_same)
  have ok: "fst (add_handler om st self name func) = Inr ()"
    using assms(1-3) by (simp add: add_handler_known)
  have res: "map_option descr_get (class_getattr st' c name) = Some (Func func)"
    using own by (simp add: class_getattr_def)
  have d1: "dispatch st' svc name = Some func" if "svc_cls svc = c" for svc
    using own that by (simp add: dispatch_own_static)
  have d2: "dispatch (snd (add_handler om st' self' name' g)) svc name = Some func"
    if "svc_cls svc = c" "name' \<noteq> name"
      "self' < length (servers st')" "(servers st' ! self') ''_MAP'' = None"
    for svc self' name' g
  proof -
    have "class_attrs (snd (add_handler om st' self' name' g)) c name = class_attrs st' c name"
      using that(3,4,2) by (rule class_attrs_add_handler_other)
    with own that(1) show ?thesis by (simp add: dispatch_own_static)
  qed
  have "c \<noteq> VTNService" using assms(1) by (rule MAP_owner_not_base)
  then have d3: "dispatch (snd (init sn cf fs st' vtn_id cert key passphrase fl)) svc name
                   = Some func"
    if "svc_cls svc = c" for svc sn cf fs vtn_id cert key passphrase fl
    using own that by (simp add: dispatch_own_static class_attrs_init_other)
  from ok res d1 d2 d3 show ?thesis by blast
qed

theorem add_handler_rebinds_dispatch_witness:
  "fst (add_handler mc0 (snd (add_handler mc0 st_one 0 ''on_poll'' 3)) 0 ''on_poll'' 7) = Inr ()
   \<and> dispatch (snd (add_handler mc0 st_one 0 ''on_poll'' 3)) poll_svc ''on_poll'' = Some 3
   \<and> dispatch (snd (add_handler mc0 (snd (add_handler mc0 st_one 0 ''on_poll'' 3)) 0 ''on_poll'' 7))
        poll_svc ''on_poll'' = Some 7
   \<and> dispatch (snd (add_handler mc0
        (snd (add_handler mc0 (snd (add_handler mc0 st_one 0 ''on_poll'' 3)) 0 ''on_poll'' 7)) 0
        ''on_request_event'' 9)) poll_svc ''on_poll'' = Some 7"
proof -
  have s: "servers st_one = [new_instance sn0 ''vtn1'' 0]" by (simp add: st_one_eq)
  have m: "map_of MAP ''on_poll'' = Some PollService" by (simp add: MAP_def)
  have s1: "servers (snd (add_handler mc0 st_one 0 ''on_poll'' 3)) = servers st_one"
    by (rule servers_add_handler) (simp_all add: s new_instance_no_MAP)
  have s2: "servers (snd (add_handler mc0 (snd (add_handler mc0 st_one 0 ''on_poll'' 3)) 0
                            ''on_poll'' 7)) = servers st_one"
    unfolding s1 [symmetric] by (rule servers_add_handler) (simp_all add: s1 s new_instance_no_MAP)
  show ?thesis
    using add_handler_rebinds_dispatch [OF m _ _ refl, of 0 st_one mc0 3]
          add_handler_rebinds_dispatch [OF m _ _ refl, of 0
            "snd (add_handler mc0 st_one 0 ''on_poll'' 3)" mc0 7]
    by (simp add: s s1 s2 new_instance_no_MAP poll_svc_def)
qed

subsection \<open>C6: binding a name twice\<close>

text \<open>
  C6, as stated, fails: \<open>add_handler\<close> has no once-only guard. On a server constructed
  without credentials, after \<open>add_handler("on_poll", 1)\<close> the call
  \<open>add_handler("on_poll", 2)\<close> succeeds and the attribute \<open>on_poll\<close> of
  \<open>PollService\<close> moves from handler 1 to handler 2.
\<close>

theorem rebind_counterexample:
  "fst (add_handler mc0 st_one 0 ''on_poll'' 1) = Inr ()
   \<and> class_attrs (snd (add_handler mc0 st_one 0 ''on_poll'' 1)) PollService ''on_poll''
       = Some (StaticMethod 1)
   \<and> fst (add_handler mc0 (snd (add_handler mc0 st_one 0 ''on_poll'' 1)) 0 ''on_poll'' 2) = Inr ()
   \<and> class_attrs (snd (add_handler mc0 (snd (add_handler mc0 st_one 0 ''on_poll'' 1)) 0
        ''on_poll'' 2)) PollService ''on_poll'' = Some (StaticMethod 2)"
  by (simp add: add_handler_def Let_def MAP_def st_one_eq instance_dict_def new_instance_def)

text \<open>
  C6, amended. An extension point can be rebound any number of times: for every key
  \<open>name\<close> of \<open>_MAP\<close> with owning class \<open>c\<close>, on servers that exist and whose
  \<open>_MAP\<close> is the table of the class, a second \<open>add_handler(name, g)\<close> after
  \<open>add_handler(name, f)\<close> succeeds as the first did, on the same server or another,
  and the attribute \<open>name\<close> of \<open>c\<close> is then \<open>staticmethod(g)\<close>, which reads as
  \<open>g\<close>: the last call wins.
\<close>

theorem add_handler_last_binding_wins:
  assumes "map_of MAP name = Some c"
    and "self < length (servers st)" and "(servers st ! self) ''_MAP'' = None"
    and "self' < length (servers st)" and "(servers st ! self') ''_MAP'' = None"
    and "st1 = snd (add_handler om st self name f)"
    and "st2 = snd (add_handler om st1 self' name g)"
  shows "fst (add_handler om st self name f) = Inr ()
       \<and> class_attrs st1 c name = Some (StaticMethod f)
       \<and> fst (add_handler om st1 self' name g) = Inr ()
       \<and> class_attrs st2 c name = Some (StaticMethod g)
       \<and> map_option descr_get (class_getattr st2 c name) = Some (Func g)"
proof -
  have srv: "servers st1 = servers st"
    unfolding assms(6) using assms(2,3) by (rule servers_add_handler)
  have h1: "self' < length (servers st1)" and h2: "(servers st1 ! self') ''_MAP'' = None"
    using assms(4,5) by (simp_all add: srv)
  have own: "class_attrs st2 c name = Some (StaticMethod g)"
    unfolding assms(7) using h1 h2 assms(1) by (rule class_attrs_add_handler_same)
  then have "map_option descr_get (class_getattr st2 c name) = Some (Func g)"
    by (simp add: class_getattr_def)
  moreover have "class_attrs st1 c name = Some (StaticMethod f)"
    unfolding assms(6) using assms(2,3,1) by (rule class_attrs_add_handler_same)
  moreover have "fst (add_handler om st self name f) = Inr ()"
    using assms(1-3) by (simp add: add_handler_known)
  moreover have "fst (add_handler om st1 self' name g) = Inr ()"
    using assms(1) h1 h2 by (simp add: add_handler_known)
  ultimately show ?thesis using own by blast
qed

theorem add_handler_last_binding_wins_witness:
  "fst (add_handler mc0 st_two 0 ''on_create_report'' 4) = Inr ()
   \<and> fst (add_handler mc0 (snd (add_handler mc0 st_two 0 ''on_create_report'' 4)) 1
        ''on_create_report'' 5) = Inr ()
   \<and> class_attrs (snd (add_handler mc0 (snd (add_handler mc0 st_two 0 ''on_create_report'' 4)) 1
        ''on_create_report'' 5)) ReportService ''on_create_report'' = Some (StaticMethod 5)"
proof -
  have s: "servers st_two = [new_instance sn0 ''vtn1'' 0, new_instance sn0 ''vtn2'' 1]"
    by (simp add: st_two_eq)
  have m: "map_of MAP ''on_create_report'' = Some ReportService" by (simp add: MAP_def)
  show ?thesis
    using add_handler_last_binding_wins [OF m _ _ _ _ refl refl, of 0 st_two 1 mc0 4 5]
    by (simp add: s new_instance_no_MAP)
qed

subsection \<open>C4: two servers in one process\<close>

text \<open>
  C4, as stated, fails: the bindings are attributes of the service classes, which all
  servers share. Take two servers. The second binds \<open>on_request_event\<close> to handler 3,
  and its event service resolves the name to handler 3. Then
  \<open>add_handler("on_request_event", 7)\<close> on the first server succeeds, and the event
  service of the second server resolves the name to handler 7.
\<close>

theorem cross_instance_counterexample:
  "svc_cls (server_services st_two 1 ! 0) = EventService
   \<and> service_getattr (snd (add_handler mc0 st_two 1 ''on_request_event'' 3))
        (server_services (snd (add_handler mc0 st_two 1 ''on_request_event'' 3)) 1 ! 0)
        ''on_request_event'' = Some (Func 3)
   \<and> fst (add_handler mc0 (snd (add_handler mc0 st_two 1 ''on_request_event'' 3)) 0
        ''on_request_event'' 7) = Inr ()
   \<and> service_getattr
        (snd (add_handler mc0 (snd (add_handler mc0 st_two 1 ''on_request_event'' 3)) 0
           ''on_request_event'' 7))
        (server_services
           (snd (add_handler mc0 (snd (add_handler mc0 st_two 1 ''on_request_event'' 3)) 0
              ''on_request_event'' 7)) 1 ! 0)
        ''on_request_event'' = Some (Func 7)"
  by (simp add: st_two_eq new_instance_def make_services_def server_services_def
        add_handler_def Let_def instance_dict_def MAP_def service_getattr_def
        class_getattr_def bases_def)

text \<open>
  C4, amended. Handler bindings are owned by the service classes and shared by every
  server of the process: for every key \<open>name\<close> of \<open>_MAP\<close> with owning class \<open>c\<close>,
  after \<open>add_handler(name, func)\<close> on any server that exists and whose \<open>_MAP\<close> is the
  table of the class, every service of class \<open>c\<close> held by any server \<open>other\<close>
  resolves \<open>name\<close> to \<open>func\<close>; the services a server holds are not changed by the
  call.
\<close>

theorem add_handler_binding_shared_by_all_servers:
  assumes "map_of MAP name = Some c"
    and "self < length (servers st)"
    and "(servers st ! self) ''_MAP'' = None"
  shows "fst (add_handler om st self name func) = Inr ()
       \<and> server_services (snd (add_handler om st self name func)) other
           = server_services st other
       \<and> (\<forall>svc \<in> set (server_services st other). svc_cls svc = c \<longrightarrow>
             service_getattr (snd (add_handler om st self name func)) svc name
               = Some (Func func))"
proof -
  have "class_attrs (snd (add_handler om st self name func)) c name = Some (StaticMethod func)"
    using assms(2,3,1) by (rule class_attrs_add_handler_same)
  then have "service_getattr (snd (add_handler om st self name func)) svc name
               = Some (Func func)"
    if "svc_cls svc = c" for svc
    using that by (simp add: service_getattr_own_static)
  moreover have "fst (add_handler om st self name func) = Inr ()"
    using assms by (simp add: add_handler_known)
  moreover have "server_services (snd (add_handler om st self name func)) other
           = server_services st other"
    using assms(2,3) by (rule server_services_add_handler)
  ultimately show ?thesis by simp
qed

theorem add_handler_binding_shared_by_all_servers_witness:
  "server_services (snd (add_handler mc0 st_two 0 ''on_poll'' 5)) 1 = server_services st_two 1
   \<and> server_services st_two 1 ! 2 \<in> set (server_services st_two 1)
   \<and> svc_cls (server_services st_two 1 ! 2) = PollService
   \<and> service_getattr (snd (add_handler mc0 st_two 0 ''on_poll'' 5))
        (server_services st_two 1 ! 2) ''on_poll'' = Some (Func 5)"
proof -
  have s: "servers st_two = [new_instance sn0 ''vtn1'' 0, new_instance sn0 ''vtn2'' 1]"
    by (simp add: st_two_eq)
  have ss: "server_services st_two (Suc 0) = map snd (make_services ''vtn2'')"
    by (simp add: server_services_def s new_instance_def)
  have m: "map_of MAP ''on_poll'' = Some PollService" by (simp add: MAP_def)
  show ?thesis
    using add_handler_binding_shared_by_all_servers [OF m, of 0 st_two mc0 5 "Suc 0"]
    by (simp add: s ss new_instance_no_MAP make_services_def)
qed

subsection \<open>C3: one credential only\<close>

text \<open>
  C3, as stated, fails: the constructor has no check of the two parameters against each
  other. With \<open>cert="cert.pem"\<close> and no key, and with a key and no certificate,
  construction returns the new server and raises nothing.
\<close>

theorem one_credential_counterexample:
  "fst (init sn0 cf0 fs0 st0 ''vtn1'' (Some ''cert.pem'') None None None) = Inr 0
   \<and> length (servers (snd (init sn0 cf0 fs0 st0 ''vtn1'' (Some ''cert.pem'') None None None))) = 1
   \<and> fst (init sn0 cf0 fs0 st0 ''vtn1'' None (Some ''key.pem'') None None) = Inr 0"
  by (simp add: init_def Let_def configure_signing_def st0_def)

text \<open>
  C3, amended. If exactly one of \<open>cert\<close> and \<open>key\<close> is supplied and the other is
  \<open>None\<close>, construction succeeds: the test \<open>if cert and key\<close> is false, so no file
  is opened (the result does not depend on the file system) and nothing is printed; the
  server is constructed, and \<open>VTNService._create_message\<close> is the partial holding the
  supplied path string and \<open>None\<close> as they were passed.
\<close>

theorem init_one_credential_succeeds:
  fixes st :: "('h, 'l) proc"
  assumes "(cert = None) \<noteq> (key = None)"
    and "st' = snd (init sn cf fs st vtn_id cert key passphrase fl)"
  shows "fst (init sn cf fs st vtn_id cert key passphrase fl) = Inr (length (servers st))
       \<and> length (servers st') = Suc (length (servers st))
       \<and> stdout st' = stdout st
       \<and> class_attrs st' VTNService ''_create_message''
           = Some (CreateMessagePartial (as_arg cert) (as_arg key) passphrase)
       \<and> class_attrs st' VTNService ''_parse_message'' = Some (ParseMessagePartial fl)"
proof -
  from assms(1) have "\<not> (truthy cert \<and> truthy key)"
    by (cases cert; cases key) simp_all
  then have "(configure_signing cf fs cert key :: error + pyarg \<times> pyarg \<times> 'h parg list list)
               = Inr (as_arg cert, as_arg key, [])"
    by (rule configure_signing_skipped)
  then show ?thesis
    unfolding assms(2) by (simp add: init_ok)
qed

theorem init_one_credential_succeeds_witness:
  "fst (init sn0 cf0 fs0 st0 ''vtn1'' (Some ''cert.pem'') None (Some ''pw'') None) = Inr 0
   \<and> stdout (snd (init sn0 cf0 fs0 st0 ''vtn1'' (Some ''cert.pem'') None (Some ''pw'') None)) = []
   \<and> class_attrs (snd (init sn0 cf0 fs0 st0 ''vtn1'' (Some ''cert.pem'') None (Some ''pw'') None))
        VTNService ''_create_message''
       = Some (CreateMessagePartial (PyStr ''cert.pem'') PyNone (Some ''pw''))"
  using init_one_credential_succeeds [of "Some ''cert.pem''" None _ sn0 cf0 fs0 st0 "''vtn1''"
          "Some ''pw''" None, OF _ refl]
  by (simp add: st0_def)

subsection \<open>C5: the fingerprint\<close>

text \<open>
  C5, as stated, fails: "if both are supplied, the fingerprint is printed" and "the
  partials are installed in either case" do not hold when a file cannot be opened. With
  \<open>cert="cert.pem"\<close>, which is there, and \<open>key="missing.pem"\<close>, which is not, the
  constructor raises the \<open>OSError\<close> of \<open>open\<close>: nothing is printed and
  \<open>VTNService._create_message\<close> is not assigned.
\<close>

theorem unreadable_key_counterexample:
  "fst (init sn0 cf0 fs0 st0 ''vtn1'' (Some ''cert.pem'') (Some ''missing.pem'') None None)
     = Inl (OSError ''missing.pem'')
   \<and> stdout (snd (init sn0 cf0 fs0 st0 ''vtn1'' (Some ''cert.pem'') (Some ''missing.pem'')
        None None)) = []
   \<and> class_attrs (snd (init sn0 cf0 fs0 st0 ''vtn1'' (Some ''cert.pem'') (Some ''missing.pem'')
        None None)) VTNService ''_create_message'' = None"
  by (simp add: init_def Let_def configure_signing_def fs0_def st0_def)

text \<open>
  C5, amended. The constructor prints the fingerprint exactly when \<open>cert\<close> and \<open>key\<close>
  are both given and non-empty (what \<open>if cert and key\<close> tests), both files can be
  read, and \<open>certificate_fingerprint\<close> returns a value \<open>fp\<close> for the contents of the
  certificate file. It then prints five lines, a line of 80 asterisks, \<open>Your VTN
  Certificate Fingerprint is\<close> followed by \<open>fp\<close>, two lines of advice and a line of
  80 asterisks, and the signer partial holds the contents of the two files. If not both
  are given and non-empty, it reads no file and prints nothing, and the signer partial
  holds the two arguments as passed. In these two cases construction returns, and the
  verifier partial and the attributes of the new server are the same in both: the
  printing changes no other step. If both are given and non-empty and one of the files
  cannot be opened, construction raises \<open>OSError\<close> and nothing is printed, assigned
  or constructed.
\<close>

theorem init_fingerprint_when_signing:
  fixes st :: "('h, 'l) proc"
  assumes "r = init sn cf fs st vtn_id cert key passphrase fl"
  shows "(\<forall>c k fp. truthy cert \<and> truthy key \<and>
                  fs (the cert) = Some c \<and> fs (the key) = Some k \<and> cf c = fp \<longrightarrow>
            fst r = Inr (length (servers st))
          \<and> stdout (snd r) = stdout st @
               [[S (replicate 80 CHR ''*'')],
                [S ''Your VTN Certificate Fingerprint is'', S fp],
                [S ''Please deliver this fingerprint to the VTN you are connecting to.''],
                [S ''You do not need to keep this a secret.''],
                [S (replicate 80 CHR ''*'')]]
          \<and> class_attrs (snd r) VTNService ''_create_message''
               = Some (CreateMessagePartial (PyBytes c) (PyBytes k) passphrase)
          \<and> class_attrs (snd r) VTNService ''_parse_message'' = Some (ParseMessagePartial fl)
          \<and> servers (snd r) = servers st @ [new_instance sn vtn_id (length (servers st))])
       \<and> (\<not> (truthy cert \<and> truthy key) \<longrightarrow>
            fst r = Inr (length (servers st))
          \<and> stdout (snd r) = stdout st
          \<and> class_attrs (snd r) VTNService ''_create_message''
               = Some (CreateMessagePartial (as_arg cert) (as_arg key) passphrase)
          \<and> class_attrs (snd r) VTNService ''_parse_message'' = Some (ParseMessagePartial fl)
          \<and> servers (snd r) = servers st @ [new_instance sn vtn_id (length (servers st))])
       \<and> (truthy cert \<and> truthy key \<and> (fs (the cert) = None \<or> fs (the key) = None) \<longrightarrow>
            (\<exists>p. fst r = Inl (OSError p)) \<and> snd r = st)"
proof -
  have a: "fst r = Inr (length (servers st))
          \<and> stdout (snd r) = stdout st @
               [[S (replicate 80 CHR ''*'')],
                [S ''Your VTN Certificate Fingerprint is'', S fp],
                [S ''Please deliver this fingerprint to the VTN you are connecting to.''],
                [S ''You do not need to keep this a secret.''],
                [S (replicate 80 CHR ''*'')]]
          \<and> class_attrs (snd r) VTNService ''_create_message''
               = Some (CreateMessagePartial (PyBytes c) (PyBytes k) passphrase)
          \<and> class_attrs (snd r) VTNService ''_parse_message'' = Some (ParseMessagePartial fl)
          \<and> servers (snd r) = servers st @ [new_instance sn vtn_id (length (servers st))]"
    if "truthy cert" "truthy key" "fs (the cert) = Some c" "fs (the key) = Some k" "cf c = fp"
    for c k fp
  proof -
    from that have "(configure_signing cf fs cert key :: error + pyarg \<times> pyarg \<times> 'h parg list list)
               = Inr (PyBytes c, PyBytes k, fingerprint_banner fp)"
      by (simp add: configure_signing_read)
    then show ?thesis
      unfolding assms by (simp add: init_ok' fingerprint_banner_def)
  qed
  have b: "fst r = Inr (length (servers st))
          \<and> stdout (snd r) = stdout st
          \<and> class_attrs (snd r) VTNService ''_create_message''
               = Some (CreateMessagePartial (as_arg cert) (as_arg key) passphrase)
          \<and> class_attrs (snd r) VTNService ''_parse_message'' = Some (ParseMessagePartial fl)
          \<and> servers (snd r) = servers st @ [new_instance sn vtn_id (length (servers st))]"
    if "\<not> (truthy cert \<and> truthy key)"
  proof -
    from that have "(configure_signing cf fs cert key :: error + pyarg \<times> pyarg \<times> 'h parg list list)
               = Inr (as_arg cert, as_arg key, [])"
      by (rule configure_signing_skipped)
    then show ?thesis
      unfolding assms by (simp add: init_ok')
  qed
  have c: "(\<exists>p. fst r = Inl (OSError p)) \<and> snd r = st"
    if "truthy cert" "truthy key" "fs (the cert) = None \<or> fs (the key) = None"
  proof -
    from that obtain p where "init sn cf fs st vtn_id cert key passphrase fl = (Inl (OSError p), st)"
      using init_unreadable by blast
    then show ?thesis unfolding assms by simp
  qed
  from a b c show ?thesis by blast
qed

theorem init_fingerprint_when_signing_witness:
  "stdout (snd (init sn0 cf0 fs0 st0 ''vtn1'' (Some ''cert.pem'') (Some ''key.pem'') None None))
     = [[S (replicate 80 CHR ''*'')],
        [S ''Your VTN Certificate Fingerprint is'', S ''CERT''],
        [S ''Please deliver this fingerprint to the VTN you are connecting to.''],
        [S ''You do not need to keep this a secret.''],
        [S (replicate 80 CHR ''*'')]]
   \<and> class_attrs (snd (init sn0 cf0 fs0 st0 ''vtn1'' (Some ''cert.pem'') (Some ''key.pem'') None None))
        VTNService ''_create_message''
       = Some (CreateMessagePartial (PyBytes ''CERTDATA'') (PyBytes ''KEYDATA'') None)
   \<and> stdout (snd (init sn0 cf0 fs0 st0 ''vtn1'' None None None None)) = []
   \<and> class_attrs (snd (init sn0 cf0 fs0 st0 ''vtn1'' None None None None))
        VTNService ''_create_message''
       = Some (CreateMessagePartial PyNone PyNone None)
   \<and> snd (init sn0 cf0 fs0 st0 ''vtn1'' (Some ''nocert.pem'') (Some ''key.pem'') None None) = st0"
proof -
  have f: "fs0 ''cert.pem'' = Some ''CERTDATA''" "fs0 ''key.pem'' = Some ''KEYDATA''"
    "fs0 ''nocert.pem'' = None" "cf0 ''CERTDATA'' = ''CERT''"
    by (simp_all add: fs0_def cf0_def)
  have e: "stdout st0 = []" by (simp add: st0_def)
  from init_fingerprint_when_signing [OF refl, where sn = sn0 and cf = cf0 and fs = fs0
          and st = st0 and vtn_id = "''vtn1''" and cert = "Some ''cert.pem''"
          and key = "Some ''key.pem''" and passphrase = None and fl = None]
  have 1: "stdout (snd (init sn0 cf0 fs0 st0 ''vtn1'' (Some ''cert.pem'') (Some ''key.pem'') None None))
     = stdout st0 @ [[S (replicate 80 CHR ''*'')],
        [S ''Your VTN Certificate Fingerprint is'', S ''CERT''],
        [S ''Please deliver this fingerprint to the VTN you are connecting to.''],
        [S ''You do not need to keep this a secret.''],
        [S (replicate 80 CHR ''*'')]]
   \<and> class_attrs (snd (init sn0 cf0 fs0 st0 ''vtn1'' (Some ''cert.pem'') (Some ''key.pem'') None None))
        VTNService ''_create_message''
       = Some (CreateMessagePartial (PyBytes ''CERTDATA'') (PyBytes ''KEYDATA'') None)"
    using f by simp
  from init_fingerprint_when_signing [OF refl, where sn = sn0 and cf = cf0 and fs = fs0
          and st = st0 and vtn_id = "''vtn1''" and cert = None and key = None
          and passphrase = None and fl = None]
  have 2: "stdout (snd (init sn0 cf0 fs0 st0 ''vtn1'' None None None None)) = stdout st0
   \<and> class_attrs (snd (init sn0 cf0 fs0 st0 ''vtn1'' None None None None))
        VTNService ''_create_message''
       = Some (CreateMessagePartial PyNone PyNone None)"
    by simp
  from init_fingerprint_when_signing [OF refl, where sn = sn0 and cf = cf0 and fs = fs0
          and st = st0 and vtn_id = "''vtn1''" and cert = "Some ''nocert.pem''"
          and key = "Some ''key.pem''" and passphrase = None and fl = None]
  have 3: "snd (init sn0 cf0 fs0 st0 ''vtn1'' (Some ''nocert.pem'') (Some ''key.pem'') None None) = st0"
    using f by simp
  from 1 2 3 e show ?thesis by simp
qed

subsection \<open>C7: one codec for all services\<close>

text \<open>
  C7. Let no service class define a signer or verifier of its own, and let the files the
  constructor opens be readable. After construction the new server holds one service of
  each of the five classes, and there is one signer and one verifier, the two partials
  assigned on \<open>VTNService\<close>, that every service resolves as \<open>_create_message\<close>
  and \<open>_parse_message\<close>; still no service class has one of its own.
\<close>

theorem init_installs_one_shared_codec:
  fixes st :: "('h, 'l) proc"
  assumes "no_own_codec st"
    and "files_readable fs cert key"
    and "st' = snd (init sn cf fs st vtn_id cert key passphrase fl)"
  shows "fst (init sn cf fs st vtn_id cert key passphrase fl) = Inr (length (servers st))
       \<and> map svc_cls (server_services st' (length (servers st)))
           = [EventService, ReportService, PollService, OptService, RegistrationService]
       \<and> (\<exists>enc dec.
             class_attrs st' VTNService ''_create_message'' = Some enc
           \<and> class_attrs st' VTNService ''_parse_message'' = Some dec
           \<and> (\<forall>svc. service_getattr st' svc ''_create_message'' = Some enc
                  \<and> service_getattr st' svc ''_parse_message'' = Some dec))
       \<and> no_own_codec st'"
proof -
  from assms(2) obtain c' k' and out :: "'h parg list list"
    where cs: "configure_signing cf fs cert key = Inr (c', k', out)"
    using configure_signing_readable by blast
  note ok = init_ok' [OF cs, of sn st vtn_id passphrase fl]
  have a: "fst (init sn cf fs st vtn_id cert key passphrase fl) = Inr (length (servers st))"
    by (simp add: ok)
  have b: "map svc_cls (server_services st' (length (servers st)))
           = [EventService, ReportService, PollService, OptService, RegistrationService]"
    unfolding assms(3) by (simp add: ok server_services_new make_services_def)
  have c: "class_attrs st' VTNService ''_create_message''
             = Some (CreateMessagePartial c' k' passphrase)"
          "class_attrs st' VTNService ''_parse_message'' = Some (ParseMessagePartial fl)"
    unfolding assms(3) by (simp_all add: ok)
  from a b c codec_after_init [OF assms(1) cs assms(3)] show ?thesis by blast
qed

theorem init_installs_one_shared_codec_witness:
  "map (\<lambda>svc. service_getattr st_signed svc ''_create_message'') (server_services st_signed 0)
     = replicate 5 (Some (CreateMessagePartial (PyBytes ''CERTDATA'') (PyBytes ''KEYDATA'')
                            (Some ''pw'')))
   \<and> map (\<lambda>svc. service_getattr st_signed svc ''_parse_message'') (server_services st_signed 0)
     = replicate 5 (Some (ParseMessagePartial (Some 1)))"
proof -
  have s: "server_services st_signed 0 = map snd (make_services ''vtn1'')"
    by (simp add: st_signed_def init_def Let_def configure_signing_def fs0_def st0_def
          server_services_def)
  have e: "class_attrs st_signed VTNService ''_create_message''
      = Some (CreateMessagePartial (PyBytes ''CERTDATA'') (PyBytes ''KEYDATA'') (Some ''pw''))"
     "class_attrs st_signed VTNService ''_parse_message'' = Some (ParseMessagePartial (Some 1))"
    by (simp_all add: st_signed_def init_def Let_def configure_signing_def fs0_def st0_def)
  have n: "no_own_codec st0" by (simp add: no_own_codec_def st0_def)
  have r: "files_readable fs0 (Some ''cert.pem'') (Some ''key.pem'')"
    by (simp add: files_readable_def fs0_def)
  from init_installs_one_shared_codec [OF n r st_signed_def]
  obtain enc dec where
    "class_attrs st_signed VTNService ''_create_message'' = Some enc"
    "class_attrs st_signed VTNService ''_parse_message'' = Some dec"
    "\<And>svc. service_getattr st_signed svc ''_create_message'' = Some enc"
    "\<And>svc. service_getattr st_signed svc ''_parse_message'' = Some dec"
    by blast
  with e show ?thesis
    by (simp add: s make_services_def numeral_eq_Suc)
qed

subsection \<open>C8: the routes\<close>

text \<open>
  C8. The constructor registers five routes, one for each service it holds, in the order
  event, report, poll, opt, registration. Each is a POST route, its handler is the
  service's, and its path is \<open>/OpenADR2/Simple/2.0b/\<close> followed by the service name
  of the service's class. The five services are distinct.
\<close>

theorem init_registers_five_post_routes:
  fixes st :: "('h, 'l) proc"
  assumes "files_readable fs cert key"
    and "st' = snd (init sn cf fs st vtn_id cert key passphrase fl)"
  shows "fst (init sn cf fs st vtn_id cert key passphrase fl) = Inr (length (servers st))
       \<and> server_routes st' (length (servers st)) =
           [\<lparr>rt_method = ''POST'', rt_path = ''/OpenADR2/Simple/2.0b/'' @ sn EventService,
             rt_handler = \<lparr>svc_cls = EventService, svc_vtn_id = vtn_id\<rparr>\<rparr>,
            \<lparr>rt_method = ''POST'', rt_path = ''/OpenADR2/Simple/2.0b/'' @ sn ReportService,
             rt_handler = \<lparr>svc_cls = ReportService, svc_vtn_id = vtn_id\<rparr>\<rparr>,
            \<lparr>rt_method = ''POST'', rt_path = ''/OpenADR2/Simple/2.0b/'' @ sn PollService,
             rt_handler = \<lparr>svc_cls = PollService, svc_vtn_id = vtn_id\<rparr>\<rparr>,
            \<lparr>rt_method = ''POST'', rt_path = ''/OpenADR2/Simple/2.0b/'' @ sn OptService,
             rt_handler = \<lparr>svc_cls = OptService, svc_vtn_id = vtn_id\<rparr>\<rparr>,
            \<lparr>rt_method = ''POST'', rt_path = ''/OpenADR2/Simple/2.0b/'' @ sn RegistrationService,
             rt_handler = \<lparr>svc_cls = RegistrationService, svc_vtn_id = vtn_id\<rparr>\<rparr>]
       \<and> length (server_routes st' (length (servers st))) = 5
       \<and> map rt_handler (server_routes st' (length (servers st)))
           = server_services st' (length (servers st))
       \<and> distinct (server_services st' (length (servers st)))"
proof -
  from assms(1) obtain c' k' and out :: "'h parg list list"
    where cs: "configure_signing cf fs cert key = Inr (c', k', out)"
    using configure_signing_readable by blast
  note ok = init_ok' [OF cs, of sn st vtn_id passphrase fl]
  have r: "server_routes st' (length (servers st)) = make_routes sn (make_services vtn_id)"
    unfolding assms(2) by (simp add: ok server_routes_new)
  have s: "server_services st' (length (servers st)) = map snd (make_services vtn_id)"
    unfolding assms(2) by (simp add: ok server_services_new)
  show ?thesis
    unfolding r s by (simp add: ok make_routes_def make_services_def)
qed

theorem init_registers_five_post_routes_witness:
  "map rt_path (server_routes (snd (init sn0 cf0 fs0 st0 ''vtn1'' None None None None)) 0) =
     [''/OpenADR2/Simple/2.0b/EiEvent'', ''/OpenADR2/Simple/2.0b/EiReport'',
      ''/OpenADR2/Simple/2.0b/OadrPoll'', ''/OpenADR2/Simple/2.0b/EiOpt'',
      ''/OpenADR2/Simple/2.0b/EiRegisterParty'']
   \<and> map rt_method (server_routes (snd (init sn0 cf0 fs0 st0 ''vtn1'' None None None None)) 0) =
     [''POST'', ''POST'', ''POST'', ''POST'', ''POST'']"
proof -
  have r: "files_readable fs0 None None" by (simp add: files_readable_def)
  show ?thesis
    using init_registers_five_post_routes [OF r refl, of sn0 cf0 st0 "''vtn1''" None None]
    by (simp add: st0_def)
qed

subsection \<open>C9: assigning an attribute of a server\<close>

text \<open>
  C9, as stated, fails for three names. Python guards the assignment of \<open>__class__\<close>,
  \<open>__dict__\<close> and \<open>__weakref__\<close> on such an instance: \<open>server.__weakref__ = func\<close>
  raises \<open>AttributeError\<close>, and \<open>server.__class__ = func\<close> and
  \<open>server.__dict__ = func\<close> raise \<open>TypeError\<close>, so "for every name, raises no error"
  does not hold.
\<close>

theorem guarded_assignment_counterexample:
  "fst (setattr_stmt mc0 st_one 0 ''__weakref__'' 5) = Inl AttributeError
   \<and> fst (setattr_stmt mc0 st_one 0 ''__class__'' 5) = Inl TypeError
   \<and> fst (setattr_stmt mc0 st_one 0 ''__dict__'' 5) = Inl TypeError"
  by (simp add: setattr_stmt_def assign_attr_def OpenADRServer_dict_def
        object_setattr_stmt_def guarded_slot_def)

text \<open>
  C9, amended. The body of \<open>OpenADRServer\<close> binds no \<open>__setattr__\<close>, so the hook of
  an assignment on a server is that of \<open>object\<close>; after construction the instance
  attribute \<open>__setattr__\<close> of the server is the bound method \<open>add_handler\<close>, an entry
  of the instance dictionary like any other, which the assignment does not consult.
  For every name other than \<open>__class__\<close>, \<open>__dict__\<close> and \<open>__weakref__\<close>, whether
  it is a key of \<open>_MAP\<close> or not, and every callable \<open>func\<close>, the statement
  \<open>server.name = func\<close> raises nothing; it stores \<open>func\<close> under \<open>name\<close> in the
  instance dictionary of that server and changes no other entry and no other server; it
  changes no attribute of a service class, so every handler binding is as before; and
  it prints nothing, while every call of \<open>add_handler\<close> on that server prints a line:
  \<open>add_handler\<close> is not called. Had the class body bound \<open>__setattr__\<close> to
  \<open>add_handler\<close>, the statement would be that call.
\<close>

theorem assignment_does_not_call_add_handler:
  fixes st :: "('h, 'l) proc"
  assumes "init sn cf fs st vtn_id cert key passphrase fl = (Inr self, st1)"
    and "name \<noteq> ''__class__''" and "name \<noteq> ''__dict__''" and "name \<noteq> ''__weakref__''"
    and "st2 = snd (setattr_stmt om st1 self name func)"
  shows "map_of OpenADRServer_dict ''__setattr__'' = None
       \<and> (servers st1 ! self) ''__setattr__'' = Some (BoundMethod self ''add_handler'')
       \<and> fst (setattr_stmt om st1 self name func) = Inr ()
       \<and> servers st2 = (servers st1)[self := (servers st1 ! self)(name \<mapsto> Func func)]
       \<and> (servers st2 ! self) name = Some (Func func)
       \<and> class_attrs st2 = class_attrs st1
       \<and> stdout st2 = stdout st1
       \<and> stdout (snd (add_handler om st1 self name func))
           = stdout st1 @ [[S ''Called add_handler'', S name, F func]]
       \<and> assign_attr ((''__setattr__'', AddHandlerFn) # OpenADRServer_dict) om st1 self name func
           = add_handler om st1 self name func"
proof -
  from assms(1) obtain c' k' and out :: "'h parg list list"
    where cs: "configure_signing cf fs cert key = Inr (c', k', out)"
    using init_InrD by blast
  note ok = init_ok' [OF cs, of sn st vtn_id passphrase fl]
  from assms(1) have self: "self = length (servers st)"
    and st1: "st1 = st\<lparr>class_attrs :=
           (class_attrs st)(VTNService := (class_attrs st VTNService)
              (''_create_message'' \<mapsto> CreateMessagePartial c' k' passphrase,
               ''_parse_message'' \<mapsto> ParseMessagePartial fl)),
         servers := servers st @ [new_instance sn vtn_id (length (servers st))],
         stdout := stdout st @ out\<rparr>"
    by (auto simp: ok)
  have lt: "self < length (servers st1)" by (simp add: self st1)
  have nomap: "(servers st1 ! self) ''_MAP'' = None"
    by (simp add: self st1 new_instance_no_MAP)
  have g: "guarded_slot name = None"
    using assms(2-4) by (rule guarded_slot_None)
  note run = setattr_stmt_ordinary [OF g, of om st1 self func]
  have a: "(servers st1 ! self) ''__setattr__'' = Some (BoundMethod self ''add_handler'')"
    by (simp add: self st1 new_instance_def)
  have b: "fst (setattr_stmt om st1 self name func) = Inr ()"
    by (simp add: run)
  have c: "servers st2 = (servers st1)[self := (servers st1 ! self)(name \<mapsto> Func func)]"
    unfolding assms(5) by (simp add: run)
  have c': "(servers st2 ! self) name = Some (Func func)"
    unfolding c using lt by simp
  have d: "class_attrs st2 = class_attrs st1"
    unfolding assms(5) by (simp add: run)
  have e: "stdout st2 = stdout st1"
    unfolding assms(5) by (simp add: run)
  have f: "stdout (snd (add_handler om st1 self name func))
           = stdout st1 @ [[S ''Called add_handler'', S name, F func]]"
    using lt nomap by (rule stdout_add_handler)
  note h = assign_attr_class_hook [of OpenADRServer_dict om st1 self name func]
  from no_class_hook a b c c' d e f h show ?thesis by simp
qed

theorem assignment_does_not_call_add_handler_witness:
  "fst (setattr_stmt mc0 st_one 0 ''no_such_handler'' 5) = Inr ()
   \<and> fst (add_handler mc0 st_one 0 ''no_such_handler'' 5)
       = Inl (NameError (unknown_handler_msg ''no_such_handler''))
   \<and> class_attrs (snd (setattr_stmt mc0 st_one 0 ''on_poll'' 5)) PollService ''on_poll'' = None
   \<and> (servers (snd (setattr_stmt mc0 st_one 0 ''on_poll'' 5)) ! 0) ''on_poll'' = Some (Func 5)
   \<and> class_attrs (snd (add_handler mc0 st_one 0 ''on_poll'' 5)) PollService ''on_poll''
       = Some (StaticMethod 5)"
proof -
  have i: "init sn0 cf0 fs0 st0 ''vtn1'' None None None None = (Inr 0, st_one)"
    by (simp add: st_one_def init_def Let_def configure_signing_def st0_def)
  have s: "servers st_one = [new_instance sn0 ''vtn1'' 0]" by (simp add: st_one_eq)
  have ca: "class_attrs st_one PollService = Map.empty" by (simp add: st_one_eq)
  have ah1: "fst (add_handler mc0 st_one 0 ''no_such_handler'' 5)
       = Inl (NameError (unknown_handler_msg ''no_such_handler''))"
    by (simp add: add_handler_unknown s new_instance_no_MAP MAP_def)
  have ah2: "class_attrs (snd (add_handler mc0 st_one 0 ''on_poll'' 5)) PollService ''on_poll''
       = Some (StaticMethod 5)"
    by (simp add: class_attrs_add_handler_same s new_instance_no_MAP MAP_def)
  from assignment_does_not_call_add_handler [OF i _ _ _ refl,
         where name = "''no_such_handler''" and om = mc0 and func = 5]
  have 1: "fst (setattr_stmt mc0 st_one 0 ''no_such_handler'' 5) = Inr ()"
    by simp
  from assignment_does_not_call_add_handler [OF i _ _ _ refl,
         where name = "''on_poll''" and om = mc0 and func = 5]
  have 2: "class_attrs (snd (setattr_stmt mc0 st_one 0 ''on_poll'' 5)) = class_attrs st_one"
    and 3: "(servers (snd (setattr_stmt mc0 st_one 0 ''on_poll'' 5)) ! 0) ''on_poll''
              = Some (Func 5)"
    by (simp_all add: s)
  from 1 2 3 ca ah1 ah2 show ?thesis by simp
qed

subsection \<open>C10: a second server replaces the codec\<close>

text \<open>
  C10. Let no service class define a signer or verifier of its own. When a server is
  constructed and then another one, whose signing block leaves \<open>cert\<close> and \<open>key\<close> at
  \<open>c2\<close> and \<open>k2\<close>, every server that existed before the last construction, the one
  constructed just before and all those already in the process, still holds the
  services it held, and each of these services, which resolved \<open>_create_message\<close> and
  \<open>_parse_message\<close> to the partials of the earlier construction, now resolves them to
  the partial with \<open>c2\<close>, \<open>k2\<close> and the last passphrase and to the partial with the
  last \<open>fingerprint_lookup\<close>: the credentials of the server constructed last are in
  force for every server.
\<close>

theorem later_server_replaces_codec:
  fixes st :: "('h, 'l) proc" and out2 :: "'h parg list list"
  assumes "no_own_codec st"
    and "files_readable fs1 cert1 key1"
    and "configure_signing cf2 fs2 cert2 key2 = Inr (c2, k2, out2)"
    and "st1 = snd (init sn1 cf1 fs1 st v1 cert1 key1 p1 fl1)"
    and "st2 = snd (init sn2 cf2 fs2 st1 v2 cert2 key2 p2 fl2)"
  shows "fst (init sn1 cf1 fs1 st v1 cert1 key1 p1 fl1) = Inr (length (servers st))
       \<and> fst (init sn2 cf2 fs2 st1 v2 cert2 key2 p2 fl2) = Inr (Suc (length (servers st)))
       \<and> length (servers st1) = Suc (length (servers st))
       \<and> map svc_cls (server_services st2 (length (servers st)))
           = [EventService, ReportService, PollService, OptService, RegistrationService]
       \<and> (\<exists>c1 k1. \<forall>svc.
             service_getattr st1 svc ''_create_message'' = Some (CreateMessagePartial c1 k1 p1)
           \<and> service_getattr st1 svc ''_parse_message'' = Some (ParseMessagePartial fl1))
       \<and> (\<forall>i < length (servers st1).
             server_services st2 i = server_services st1 i
           \<and> (\<forall>svc \<in> set (server_services st2 i).
                 service_getattr st2 svc ''_create_message''
                   = Some (CreateMessagePartial c2 k2 p2)
               \<and> service_getattr st2 svc ''_parse_message'' = Some (ParseMessagePartial fl2)))"
proof -
  from assms(2) obtain c1 k1 and out1 :: "'h parg list list"
    where cs1: "configure_signing cf1 fs1 cert1 key1 = Inr (c1, k1, out1)"
    using configure_signing_readable by blast
  note ok1 = init_ok' [OF cs1, of sn1 st v1 p1 fl1]
  note ok2 = init_ok' [OF assms(3), of sn2 st1 v2 p2 fl2]
  have len1: "length (servers st1) = Suc (length (servers st))"
    unfolding assms(4) by (simp add: ok1)
  have noc1: "no_own_codec st1"
    using assms(1) cs1 assms(4) by (rule codec_after_init(3))
  have a: "fst (init sn1 cf1 fs1 st v1 cert1 key1 p1 fl1) = Inr (length (servers st))"
    by (simp add: ok1)
  have b: "fst (init sn2 cf2 fs2 st1 v2 cert2 key2 p2 fl2) = Inr (Suc (length (servers st)))"
    by (simp add: ok2 len1)
  have s1: "server_services st1 (length (servers st)) = map snd (make_services v1)"
    unfolding assms(4) by (simp add: ok1 server_services_new)
  have c: "server_services st2 i = server_services st1 i" if "i < length (servers st1)" for i
    unfolding assms(5) using that by (simp add: ok2 server_services_def nth_append)
  have d: "map svc_cls (server_services st2 (length (servers st)))
           = [EventService, ReportService, PollService, OptService, RegistrationService]"
    using c [of "length (servers st)"] by (simp add: len1 s1 make_services_def)
  have e: "\<exists>c1 k1. \<forall>svc.
             service_getattr st1 svc ''_create_message'' = Some (CreateMessagePartial c1 k1 p1)
           \<and> service_getattr st1 svc ''_parse_message'' = Some (ParseMessagePartial fl1)"
    using codec_after_init(1,2) [OF assms(1) cs1 assms(4)] by blast
  from a b len1 c d e codec_after_init(1,2) [OF noc1 assms(3) assms(5)] show ?thesis by blast
qed

theorem later_server_replaces_codec_witness:
  "server_services st_then_unsigned 0 ! 0 = event_svc
   \<and> service_getattr st_signed event_svc ''_create_message''
       = Some (CreateMessagePartial (PyBytes ''CERTDATA'') (PyBytes ''KEYDATA'') (Some ''pw''))
   \<and> service_getattr st_then_unsigned event_svc ''_create_message''
       = Some (CreateMessagePartial PyNone PyNone None)
   \<and> service_getattr st_signed event_svc ''_parse_message'' = Some (ParseMessagePartial (Some 1))
   \<and> service_getattr st_then_unsigned event_svc ''_parse_message''
       = Some (ParseMessagePartial None)"
proof -
  have n: "no_own_codec st0" by (simp add: no_own_codec_def st0_def)
  have r: "files_readable fs0 (Some ''cert.pem'') (Some ''key.pem'')"
    by (simp add: files_readable_def fs0_def)
  have cs: "(configure_signing cf0 fs0 None None :: error + pyarg \<times> pyarg \<times> nat parg list list)
              = Inr (PyNone, PyNone, [])"
    by (simp add: configure_signing_def)
  have s: "server_services st_signed 0 = map snd (make_services ''vtn1'')"
    by (simp add: st_signed_def init_def Let_def configure_signing_def fs0_def st0_def
          server_services_def)
  have before: "service_getattr st_signed event_svc ''_create_message''
       = Some (CreateMessagePartial (PyBytes ''CERTDATA'') (PyBytes ''KEYDATA'') (Some ''pw''))"
     "service_getattr st_signed event_svc ''_parse_message'' = Some (ParseMessagePartial (Some 1))"
    by (simp_all add: st_signed_def init_def Let_def configure_signing_def fs0_def st0_def
          service_getattr_def class_getattr_def bases_def event_svc_def)
  from later_server_replaces_codec [OF n r cs st_signed_def st_then_unsigned_def]
  have "length (servers st_signed) = Suc 0"
    and all: "\<forall>i < length (servers st_signed).
             server_services st_then_unsigned i = server_services st_signed i
           \<and> (\<forall>svc \<in> set (server_services st_then_unsigned i).
             service_getattr st_then_unsigned svc ''_create_message''
               = Some (CreateMessagePartial PyNone PyNone None)
           \<and> service_getattr st_then_unsigned svc ''_parse_message''
               = Some (ParseMessagePartial None))"
    by (simp_all add: servers_st0)
  then have "server_services st_then_unsigned 0 = server_services st_signed 0"
    and "\<forall>svc \<in> set (server_services st_then_unsigned 0).
             service_getattr st_then_unsigned svc ''_create_message''
               = Some (CreateMessagePartial PyNone PyNone None)
           \<and> service_getattr st_then_unsigned svc ''_parse_message''
               = Some (ParseMessagePartial None)"
    by simp_all
  with s before show ?thesis
    by (simp add: make_services_def event_svc_def)
qed

end
